theory Spec2Isabelle
  imports Complex_Main "HOL-Library.Multiset"
begin

section \<open>Values exchanged between the client, the server and SQLite\<close>

text \<open>
  A field of the parsed JSON body of a request (\<open>req.body\<close> after \<open>express.json()\<close>).
  A field that is absent from the body reads as \<open>undefined\<close> in JavaScript; the body is
  therefore a partial map from field names to values and \<open>None\<close> stands for \<open>undefined\<close>.
  The scalar values of JSON are modelled; arrays and objects as the value of a field are
  left out.
\<close>

datatype json = JNull | JBool bool | JNumber real | JString string

type_synonym body = "string \<rightharpoonup> json"

text \<open>
  The values a column of the table holds. JavaScript numbers are bound as REAL.
  Finite numbers are modelled by \<open>real\<close>: arithmetic on them is exact in the model, and
  so is the reading of a decimal numeral.
\<close>

datatype sql_value = SNull | SReal real | SText string

datatype sql_error = TypeError | SQLITE_FULL | DuplicateColumn | NoSuchTable

text \<open>
  One row of the table \<open>speedtests\<close> (\<open>server.ts\<close>, lines 10-16). The column \<open>id\<close> is
  named \<open>id'\<close> here. The column \<open>timestamp\<close> holds the text \<open>YYYY-MM-DD HH:MM:SS\<close> of
  \<open>CURRENT_TIMESTAMP\<close>, which has a resolution of one second and whose text order is
  the order of time: it is modelled by the number of seconds it denotes.
\<close>

record speedtest =
  id' :: int
  timestamp :: nat
  download_mbps :: sql_value
  upload_mbps :: sql_value
  ping_ms :: sql_value

text \<open>
  The table: its column names, its rows in the order of insertion (the order of a table
  scan), and \<open>seq\<close>, the entry of the table in \<open>sqlite_sequence\<close> that \<open>AUTOINCREMENT\<close>
  maintains (the largest row id ever handed out). In a table of an older installation
  that has no column \<open>upload_mbps\<close> the field \<open>upload_mbps\<close> of every row is \<open>SNull\<close>.
  The database file holds the table or does not hold it yet.
\<close>

record table =
  columns :: "string list"
  rows :: "speedtest list"
  seq :: int

type_synonym database = "table option"

section \<open>Schema initialisation (\<open>server.ts\<close>, lines 9-23)\<close>

definition speedtests_columns :: "string list" where
  "speedtests_columns = [''id'', ''timestamp'', ''download_mbps'', ''upload_mbps'', ''ping_ms'']"

text \<open>\<open>CREATE TABLE IF NOT EXISTS speedtests (...)\<close>\<close>

definition create_table_if_not_exists :: "database \<Rightarrow> sql_error + database" where
  "create_table_if_not_exists db =
     (case db of
        None \<Rightarrow> Inr (Some \<lparr>columns = speedtests_columns, rows = [], seq = 0\<rparr>)
      | Some t \<Rightarrow> Inr (Some t))"

text \<open>
  \<open>ALTER TABLE speedtests ADD COLUMN c REAL\<close>: an error when the column exists already;
  otherwise the column is added and reads as NULL in every existing row.
\<close>

definition alter_table_add_column :: "string \<Rightarrow> database \<Rightarrow> sql_error + database" where
  "alter_table_add_column c db =
     (case db of
        None \<Rightarrow> Inl NoSuchTable
      | Some t \<Rightarrow>
          if c \<in> set (columns t) then Inl DuplicateColumn
          else Inr (Some (t\<lparr>columns := columns t @ [c]\<rparr>)))"

text \<open>
  The two statements at the top of \<open>server.ts\<close>. An error of the first one propagates;
  the second one runs inside \<open>try { ... } catch (e) { }\<close>, so its error is dropped and the
  database stays as the first statement left it.
\<close>

definition init_schema :: "database \<Rightarrow> sql_error + database" where
  "init_schema db =
     (case create_table_if_not_exists db of
        Inl e \<Rightarrow> Inl e
      | Inr db1 \<Rightarrow>
          (case alter_table_add_column ''upload_mbps'' db1 of
             Inl e \<Rightarrow> Inr db1
           | Inr db2 \<Rightarrow> Inr db2))"

section \<open>The persistence API (\<open>server.ts\<close>, lines 33-51)\<close>

datatype payload =
    JsonList "speedtest list"
  | JsonRecord "speedtest option"
  | JsonSuccess bool

text \<open>
  A response is \<open>200\<close> with a JSON payload, or an error status. A handler that throws
  is answered by Express with status 500.
\<close>

datatype http_response = Ok200 payload | HttpError nat


text \<open>
  \<open>ORDER BY timestamp DESC\<close>. SQL leaves the order of rows with equal keys open; SQLite
  sorts a query with \<open>LIMIT\<close> on the key followed by the position in the scan, so rows
  with equal timestamps stay in scan order. This is a stable sort on the negated key.
\<close>

definition order_by_timestamp_desc :: "speedtest list \<Rightarrow> speedtest list" where
  "order_by_timestamp_desc rs = sort_key (\<lambda>r. - int (timestamp r)) rs"

text \<open>\<open>app.get('/api/speedtests')\<close>: \<open>SELECT * FROM speedtests ORDER BY timestamp DESC LIMIT 100\<close>\<close>

definition get_speedtests :: "table \<Rightarrow> table \<times> http_response" where
  "get_speedtests t = (t, Ok200 (JsonList (take 100 (order_by_timestamp_desc (rows t)))))"

text \<open>
  Binding a JavaScript value to a parameter of a prepared statement: numbers and strings
  are bound as they are, \<open>null\<close> and \<open>undefined\<close> are bound as NULL; a boolean makes \<open>run\<close>
  throw a \<open>TypeError\<close>.
\<close>

fun bind_param :: "json option \<Rightarrow> sql_error + sql_value" where
  "bind_param None = Inr SNull"
| "bind_param (Some JNull) = Inr SNull"
| "bind_param (Some (JBool b)) = Inl TypeError"
| "bind_param (Some (JNumber x)) = Inr (SReal x)"
| "bind_param (Some (JString s)) = Inr (SText s)"

text \<open>
  The three metrics are columns of type \<open>REAL\<close>. A text stored in such a column is turned
  into a number when the whole of it is a decimal numeral: blanks, a sign, digits with
  at most one point and at least one digit, an exponent \<open>e\<close> or \<open>E\<close> with a sign and at
  least one digit, blanks. Any other text is stored as text.
\<close>

definition is_space :: "char \<Rightarrow> bool" where
  "is_space c = (c \<in> set [CHR '' '', CHR 0x09, CHR 0x0A, CHR 0x0B, CHR 0x0C, CHR 0x0D])"

definition is_digit :: "char \<Rightarrow> bool" where
  "is_digit c = (c \<in> set ''0123456789'')"

definition digits_value :: "string \<Rightarrow> nat" where
  "digits_value ds = foldl (\<lambda>n c. 10 * n + (of_char c - 48)) 0 ds"

fun take_sign :: "string \<Rightarrow> bool \<times> string" where
  "take_sign [] = (False, [])"
| "take_sign (c # r) =
     (if c = CHR ''-'' then (True, r) else if c = CHR ''+'' then (False, r) else (False, c # r))"

fun take_fraction :: "string \<Rightarrow> string \<times> string" where
  "take_fraction [] = ([], [])"
| "take_fraction (c # r) =
     (if c = CHR ''.'' then (takeWhile is_digit r, dropWhile is_digit r) else ([], c # r))"

text \<open>The exponent and the rest of the text; \<open>None\<close> for an exponent without a digit.\<close>

fun take_exponent :: "string \<Rightarrow> (int \<times> string) option" where
  "take_exponent [] = Some (0, [])"
| "take_exponent (c # r) =
     (if c = CHR ''e'' \<or> c = CHR ''E'' then
        (case take_sign r of (neg, r1) \<Rightarrow>
           (if takeWhile is_digit r1 = [] then None
            else Some ((if neg then - int (digits_value (takeWhile is_digit r1))
                        else int (digits_value (takeWhile is_digit r1))),
                       dropWhile is_digit r1)))
      else Some (0, c # r))"

definition text_to_real :: "string \<Rightarrow> real option" where
  "text_to_real s =
     (case take_sign (dropWhile is_space s) of (neg, z1) \<Rightarrow>
        (case take_fraction (dropWhile is_digit z1) of (fp, z3) \<Rightarrow>
           (case take_exponent z3 of
              None \<Rightarrow> None
            | Some (e, z5) \<Rightarrow>
                (if takeWhile is_digit z1 @ fp = [] \<or> dropWhile is_space z5 \<noteq> [] then None
                 else Some ((if neg then - 1 else 1) *
                            (real (digits_value (takeWhile is_digit z1 @ fp)) / 10 ^ length fp) *
                            (if 0 \<le> e then 10 ^ nat e else 1 / 10 ^ nat (- e)))))))"

fun real_affinity :: "sql_value \<Rightarrow> sql_value" where
  "real_affinity (SText s) = (case text_to_real s of Some x \<Rightarrow> SReal x | None \<Rightarrow> SText s)"
| "real_affinity v = v"

text \<open>
  \<open>id INTEGER PRIMARY KEY AUTOINCREMENT\<close>: the new id is one more than the largest id
  the table has ever held; when that is the largest 64-bit integer the insert fails.
\<close>

definition max_rowid :: int where
  "max_rowid = 9223372036854775807"

definition next_rowid :: "table \<Rightarrow> int" where
  "next_rowid t = fold max (map id' (rows t)) (seq t) + 1"

text \<open>
  \<open>INSERT INTO speedtests (download_mbps, upload_mbps, ping_ms) VALUES (?, ?, ?)\<close> at the
  server time \<open>now\<close>: \<open>id\<close> and \<open>timestamp\<close> take their defaults. The result carries
  \<open>lastInsertRowid\<close>.
\<close>

definition insert_speedtest ::
  "nat \<Rightarrow> sql_value \<Rightarrow> sql_value \<Rightarrow> sql_value \<Rightarrow> table \<Rightarrow> sql_error + (table \<times> int)" where
  "insert_speedtest now d u p t =
     (let i = next_rowid t in
      if max_rowid < i then Inl SQLITE_FULL
      else Inr (t\<lparr>rows := rows t @
                    [\<lparr>id' = i, timestamp = now, download_mbps = real_affinity d,
                      upload_mbps = real_affinity u, ping_ms = real_affinity p\<rparr>],
                  seq := i\<rparr>, i))"

text \<open>\<open>stmt.run(download_mbps, upload_mbps, ping_ms)\<close>\<close>

definition stmt_run ::
  "nat \<Rightarrow> json option \<Rightarrow> json option \<Rightarrow> json option \<Rightarrow> table \<Rightarrow> sql_error + (table \<times> int)" where
  "stmt_run now d u p t =
     (case bind_param d of
        Inl e \<Rightarrow> Inl e
      | Inr dv \<Rightarrow>
          (case bind_param u of
             Inl e \<Rightarrow> Inl e
           | Inr uv \<Rightarrow>
               (case bind_param p of
                  Inl e \<Rightarrow> Inl e
                | Inr pv \<Rightarrow> insert_speedtest now dv uv pv t)))"

text \<open>\<open>SELECT * FROM speedtests WHERE id = ?\<close>, first row or \<open>undefined\<close>\<close>

definition select_by_id :: "int \<Rightarrow> table \<Rightarrow> speedtest option" where
  "select_by_id i t = find (\<lambda>r. id' r = i) (rows t)"

text \<open>
  \<open>app.post('/api/speedtests')\<close>: the three fields of the body go to the insert as they
  are; the handler has no check of its own.
\<close>

definition post_speedtests :: "nat \<Rightarrow> body \<Rightarrow> table \<Rightarrow> table \<times> http_response" where
  "post_speedtests now b t =
     (case stmt_run now (b ''download_mbps'') (b ''upload_mbps'') (b ''ping_ms'') t of
        Inl e \<Rightarrow> (t, HttpError 500)
      | Inr (t', lastInsertRowid) \<Rightarrow> (t', Ok200 (JsonRecord (select_by_id lastInsertRowid t'))))"

text \<open>\<open>app.delete('/api/speedtests')\<close>: \<open>DELETE FROM speedtests\<close>; \<open>sqlite_sequence\<close> stays.\<close>

definition delete_speedtests :: "table \<Rightarrow> table \<times> http_response" where
  "delete_speedtests t = (t\<lparr>rows := []\<rparr>, Ok200 (JsonSuccess True))"

text \<open>A sequence of requests handled one after the other (a single writer).\<close>

datatype request =
    GET_speedtests
  | POST_speedtests nat body
  | DELETE_speedtests

fun serve :: "request \<Rightarrow> table \<Rightarrow> table \<times> http_response" where
  "serve GET_speedtests t = get_speedtests t"
| "serve (POST_speedtests now b) t = post_speedtests now b t"
| "serve DELETE_speedtests t = delete_speedtests t"

fun serve_all :: "request list \<Rightarrow> table \<Rightarrow> table \<times> http_response list" where
  "serve_all [] t = (t, [])"
| "serve_all (q # qs) t =
     (case serve q t of (t1, r) \<Rightarrow>
        (case serve_all qs t1 of (t2, rs) \<Rightarrow> (t2, r # rs)))"

text \<open>The records that the responses of a run returned for a creation, in order.\<close>

fun created :: "http_response list \<Rightarrow> speedtest list" where
  "created [] = []"
| "created (Ok200 (JsonRecord (Some r)) # rs) = r # created rs"
| "created (x # rs) = created rs"

text \<open>The server times at which the creations of a run were handled, in order.\<close>

fun clock_readings :: "request list \<Rightarrow> nat list" where
  "clock_readings [] = []"
| "clock_readings (POST_speedtests now b # qs) = now # clock_readings qs"
| "clock_readings (q # qs) = clock_readings qs"

text \<open>The records that a response lists.\<close>

fun listed :: "http_response \<Rightarrow> speedtest list" where
  "listed (Ok200 (JsonList rs)) = rs"
| "listed x = []"

section \<open>JavaScript numbers in the client\<close>

text \<open>
  A JavaScript number is finite, an infinity or NaN. The model has one zero, the positive
  one: the zero durations of the client arise as a difference \<open>t - t\<close>, which is \<open>+0\<close>.
\<close>

datatype jsnum = Fin real | PosInf | NegInf | NaN

fun js_div :: "jsnum \<Rightarrow> jsnum \<Rightarrow> jsnum" where
  "js_div (Fin a) (Fin b) =
     (if b = 0 then (if a = 0 then NaN else if 0 < a then PosInf else NegInf)
      else Fin (a / b))"
| "js_div PosInf (Fin b) = (if 0 \<le> b then PosInf else NegInf)"
| "js_div NegInf (Fin b) = (if 0 \<le> b then NegInf else PosInf)"
| "js_div (Fin a) PosInf = Fin 0"
| "js_div (Fin a) NegInf = Fin 0"
| "js_div x y = NaN"

text \<open>
  \<open>Number(x.toFixed(2))\<close>: the nearest multiple of 1/100, the larger one of two in
  magnitude; from \<open>10^21\<close> on, and for an infinity or NaN, \<open>toFixed\<close> prints the number
  itself and \<open>Number\<close> reads it back.
\<close>

definition round2 :: "real \<Rightarrow> real" where
  "round2 x =
     (if 10 ^ 21 \<le> \<bar>x\<bar> then x
      else if 0 \<le> x then of_int \<lfloor>x * 100 + 1 / 2\<rfloor> / 100
      else - (of_int \<lfloor>(- x) * 100 + 1 / 2\<rfloor> / 100))"

fun Number_toFixed2 :: "jsnum \<Rightarrow> jsnum" where
  "Number_toFixed2 (Fin x) = Fin (round2 x)"
| "Number_toFixed2 x = x"

text \<open>\<open>JSON.stringify\<close> of a number: an infinity and NaN are written as \<open>null\<close>.\<close>

fun stringify_number :: "jsnum \<Rightarrow> json" where
  "stringify_number (Fin x) = JNumber x"
| "stringify_number x = JNull"

section \<open>The measurement client (\<open>runSpeedTest\<close>, lines 48-108 of the component)\<close>

text \<open>
  A promise that has settled. \<open>fetch\<close> rejects on a network failure only; a response
  with an error status resolves, and the probes never read the status.
\<close>

datatype 'a promise = Rejected | Resolved 'a

fun rejected :: "'a promise \<Rightarrow> bool" where
  "rejected Rejected = True"
| "rejected (Resolved x) = False"

text \<open>
  What happens to the request that saves the result: it never reaches the server, or
  the server handles it and the response is lost, or the response arrives.
\<close>

datatype transport = RequestLost | ResponseLost | Delivered

text \<open>
  What one run meets: the readings of \<open>performance.now()\<close> in milliseconds, the outcome
  of each \<open>fetch\<close> (the status of the response; for the payload also the outcome of
  \<open>res.blob()\<close> with the size of the blob in bytes), the fate of the save request and
  the server's time when it handles it.
\<close>

record run_env =
  pingStart :: real
  ping_fetch :: "nat promise"
  pingEnd :: real
  downloadStart :: real
  payload_fetch :: "(nat \<times> nat promise) promise"
  downloadEnd :: real
  uploadStart :: real
  upload_fetch :: "nat promise"
  uploadEnd :: real
  save_fetch :: transport
  server_now :: nat

datatype exception = Thrown

text \<open>Lines 55-58.\<close>

definition measure_ping :: "run_env \<Rightarrow> exception + jsnum" where
  "measure_ping env =
     (case ping_fetch env of
        Rejected \<Rightarrow> Inl Thrown
      | Resolved st \<Rightarrow> Inr (Fin (pingEnd env - pingStart env)))"

text \<open>Lines 61-69.\<close>

definition measure_download :: "run_env \<Rightarrow> exception + jsnum" where
  "measure_download env =
     (case payload_fetch env of
        Rejected \<Rightarrow> Inl Thrown
      | Resolved (st, blob) \<Rightarrow>
          (case blob of
             Rejected \<Rightarrow> Inl Thrown
           | Resolved blob_size \<Rightarrow>
               (let durationInSeconds = js_div (Fin (downloadEnd env - downloadStart env)) (Fin 1000);
                    bitsLoaded = Fin (real blob_size * 8);
                    speedBps = js_div bitsLoaded durationInSeconds
                in Inr (js_div speedBps (Fin (1024 * 1024))))))"

text \<open>Lines 72-84; \<open>uploadData.size\<close> is \<open>2 * 1024 * 1024\<close>.\<close>

definition measure_upload :: "run_env \<Rightarrow> exception + jsnum" where
  "measure_upload env =
     (case upload_fetch env of
        Rejected \<Rightarrow> Inl Thrown
      | Resolved st \<Rightarrow>
          (let uploadDurationInSeconds = js_div (Fin (uploadEnd env - uploadStart env)) (Fin 1000);
               uploadBitsLoaded = Fin ((2 * 1024 * 1024) * 8);
               uploadSpeedBps = js_div uploadBitsLoaded uploadDurationInSeconds
           in Inr (js_div uploadSpeedBps (Fin (1024 * 1024)))))"

text \<open>Lines 90-94: the body of the save request.\<close>

definition save_body :: "jsnum \<Rightarrow> jsnum \<Rightarrow> jsnum \<Rightarrow> body" where
  "save_body download upload ping =
     [''download_mbps'' \<mapsto> stringify_number (Number_toFixed2 download),
      ''upload_mbps'' \<mapsto> stringify_number (Number_toFixed2 upload),
      ''ping_ms'' \<mapsto> stringify_number (Number_toFixed2 ping)]"

text \<open>
  The three probes in the order of the source, up to the body that is to be saved. A
  rejected promise throws, and the rest of the \<open>try\<close> block does not run.
\<close>

definition measure_probes :: "run_env \<Rightarrow> exception + body" where
  "measure_probes env =
     (case measure_ping env of
        Inl e \<Rightarrow> Inl e
      | Inr ping \<Rightarrow>
          (case measure_download env of
             Inl e \<Rightarrow> Inl e
           | Inr download \<Rightarrow>
               (case measure_upload env of
                  Inl e \<Rightarrow> Inl e
                | Inr upload \<Rightarrow> Inr (save_body download upload ping))))"

text \<open>
  Lines 97-99: \<open>if (!saveRes.ok) throw ...\<close>, then \<open>await saveRes.json()\<close>, which rejects
  on the empty body that \<open>res.json(undefined)\<close> sends.
\<close>

fun saved_record :: "http_response \<Rightarrow> exception + speedtest" where
  "saved_record (Ok200 (JsonRecord (Some r))) = Inr r"
| "saved_record x = Inl Thrown"

text \<open>Lines 87-99: the save request, against the server's table.\<close>

definition save_result :: "run_env \<Rightarrow> body \<Rightarrow> table \<Rightarrow> table \<times> (exception + speedtest)" where
  "save_result env b t =
     (case save_fetch env of
        RequestLost \<Rightarrow> (t, Inl Thrown)
      | ResponseLost \<Rightarrow> (fst (post_speedtests (server_now env) b t), Inl Thrown)
      | Delivered \<Rightarrow>
          (case post_speedtests (server_now env) b t of
             (t', res) \<Rightarrow> (t', saved_record res)))"

text \<open>
  The messages that \<open>setError\<close> is called with: in \<open>fetchHistory\<close> (line 40), in
  \<open>runSpeedTest\<close> (line 104) and in \<open>clearHistory\<close> (line 137).
\<close>

datatype message = HistoryLoadFailed | MeasurementFailed | HistoryDeleteFailed

text \<open>The state of the component (lines 21-25); \<open>lastTestTime\<close> as the record's timestamp.\<close>

record app_state =
  tests :: "speedtest list"
  isRunning :: bool
  autoTestEnabled :: bool
  lastTestTime :: "nat option"
  error :: "message option"

text \<open>
  \<open>runSpeedTest\<close> is made by \<open>useCallback(..., [isRunning])\<close> (lines 48 and 108): the
  callback made at a render holds the value that \<open>isRunning\<close> had at that render, and a
  new callback is made only at the next render after \<open>isRunning\<close> has changed.
\<close>

datatype callback = Callback (captured_isRunning: bool)

definition useCallback :: "app_state \<Rightarrow> callback" where
  "useCallback s = Callback (isRunning s)"

text \<open>
  Lines 49-51, the part of \<open>runSpeedTest\<close> before its first \<open>await\<close>: nothing happens
  when the callback holds \<open>isRunning = true\<close>; otherwise the test is marked as running in
  the state of the component. The guard reads the value the callback holds, not the
  state.
\<close>

definition start_run :: "callback \<Rightarrow> app_state \<Rightarrow> app_state option" where
  "start_run cb s =
     (if captured_isRunning cb then None else Some (s\<lparr>isRunning := True, error := None\<rparr>))"

text \<open>
  Lines 53-107, the rest of \<open>runSpeedTest\<close>, on the state of the component and the
  server's table: the \<open>try\<close> block, \<open>catch\<close> and \<open>finally\<close>. The state is the one the
  setters leave; rendering it is not part of the model.
\<close>

definition complete_run :: "run_env \<Rightarrow> app_state \<times> table \<Rightarrow> app_state \<times> table" where
  "complete_run env st =
     (case st of (s, t) \<Rightarrow>
        (case measure_probes env of
           Inl e \<Rightarrow> (s\<lparr>error := Some MeasurementFailed, isRunning := False\<rparr>, t)
         | Inr b \<Rightarrow>
             (case save_result env b t of
                (t', Inl e) \<Rightarrow> (s\<lparr>error := Some MeasurementFailed, isRunning := False\<rparr>, t')
              | (t', Inr newTest) \<Rightarrow>
                  (s\<lparr>tests := take 100 (newTest # tests s),
                     lastTestTime := Some (timestamp newTest),
                     isRunning := False\<rparr>, t'))))"

definition runSpeedTest ::
  "callback \<Rightarrow> run_env \<Rightarrow> app_state \<times> table \<Rightarrow> app_state \<times> table" where
  "runSpeedTest cb env st =
     (case start_run cb (fst st) of
        None \<Rightarrow> st
      | Some s1 \<Rightarrow> complete_run env (s1, snd st))"

text \<open>A promise of one of the probes of the run is rejected.\<close>

definition probe_failed :: "run_env \<Rightarrow> bool" where
  "probe_failed env =
     (rejected (ping_fetch env) \<or>
      (case payload_fetch env of Rejected \<Rightarrow> True | Resolved (st, blob) \<Rightarrow> rejected blob) \<or>
      rejected (upload_fetch env))"


section \<open>Example inputs\<close>

text \<open>The component before any test, and a store that has just been created.\<close>

definition idle_state :: app_state where
  "idle_state =
     \<lparr>tests = [], isRunning = False, autoTestEnabled = False, lastTestTime = None, error = None\<rparr>"

definition empty_table :: table where
  "empty_table = \<lparr>columns = speedtests_columns, rows = [], seq = 0\<rparr>"

text \<open>
  A run in which every request succeeds: a ping of 12 ms, 5 MiB downloaded in one
  second, the upload done in half a second.
\<close>

definition good_run :: run_env where
  "good_run =
     \<lparr>pingStart = 0, ping_fetch = Resolved 200, pingEnd = 12,
      downloadStart = 20, payload_fetch = Resolved (200, Resolved (5 * 1024 * 1024)),
      downloadEnd = 1020,
      uploadStart = 1030, upload_fetch = Resolved 200, uploadEnd = 1530,
      save_fetch = Delivered, server_now = 1000\<rparr>"


text \<open>The same run with a connection that breaks while the payload is read.\<close>

definition broken_download_run :: run_env where
  "broken_download_run = good_run\<lparr>payload_fetch := Resolved (200, Rejected)\<rparr>"

text \<open>
  The same run with every probe answered by an error status: 500 for the ping, 404 with
  a page of 150 bytes for the payload, 500 for the upload.
\<close>

definition error_status_run :: run_env where
  "error_status_run =
     good_run\<lparr>ping_fetch := Resolved 500, payload_fetch := Resolved (404, Resolved 150),
              upload_fetch := Resolved 500\<rparr>"

section \<open>Clearing the store\<close>

text \<open>
  C9: \<open>DELETE /api/speedtests\<close> empties the store whatever it holds and answers
  \<open>{success: true}\<close>; a \<open>GET /api/speedtests\<close> right after it answers the empty list.
\<close>

theorem delete_then_get_empty:
  "snd (delete_speedtests t) = Ok200 (JsonSuccess True) \<and>
   rows (fst (delete_speedtests t)) = [] \<and>
   snd (get_speedtests (fst (delete_speedtests t))) = Ok200 (JsonList [])"
  by (simp add: delete_speedtests_def get_speedtests_def order_by_timestamp_desc_def)

text \<open>
  C10: clearing is idempotent: on a store that is already empty it answers
  \<open>{success: true}\<close> and leaves the store as it is, and clearing twice gives the same
  store and the same answer as clearing once.
\<close>

theorem delete_idempotent:
  "delete_speedtests (t\<lparr>rows := []\<rparr>) = (t\<lparr>rows := []\<rparr>, Ok200 (JsonSuccess True)) \<and>
   delete_speedtests (fst (delete_speedtests t)) = delete_speedtests t"
  by (simp add: delete_speedtests_def)

section \<open>Schema initialisation is idempotent\<close>

text \<open>
  C7: initialising the schema never raises; initialising a store that has been initialised
  leaves it exactly as it is, and so does initialising any store whose table has the
  column \<open>upload_mbps\<close> already: the rows, the columns and the id sequence stay.
\<close>

theorem init_schema_idempotent:
  "(\<exists>db'. init_schema db = Inr db' \<and> init_schema db' = Inr db') \<and>
   (''upload_mbps'' \<in> set (columns t) \<longrightarrow> init_schema (Some t) = Inr (Some t))"
  by (cases db)
     (auto simp: init_schema_def create_table_if_not_exists_def alter_table_add_column_def
        speedtests_columns_def)

text \<open>A migrated table with one record, initialised again.\<close>

theorem init_schema_idempotent_witness:
  "''upload_mbps'' \<in> set (columns
      \<lparr>columns = [''id'', ''timestamp'', ''download_mbps'', ''ping_ms'', ''upload_mbps''],
       rows = [\<lparr>id' = 1, timestamp = 50, download_mbps = SReal 40, upload_mbps = SNull,
                ping_ms = SReal 5\<rparr>],
       seq = 1\<rparr>) \<and>
   init_schema (Some
      \<lparr>columns = [''id'', ''timestamp'', ''download_mbps'', ''ping_ms'', ''upload_mbps''],
       rows = [\<lparr>id' = 1, timestamp = 50, download_mbps = SReal 40, upload_mbps = SNull,
                ping_ms = SReal 5\<rparr>],
       seq = 1\<rparr>) =
   Inr (Some
      \<lparr>columns = [''id'', ''timestamp'', ''download_mbps'', ''ping_ms'', ''upload_mbps''],
       rows = [\<lparr>id' = 1, timestamp = 50, download_mbps = SReal 40, upload_mbps = SNull,
                ping_ms = SReal 5\<rparr>],
       seq = 1\<rparr>)"
  using init_schema_idempotent
    [of None "\<lparr>columns = [''id'', ''timestamp'', ''download_mbps'', ''ping_ms'', ''upload_mbps''],
       rows = [\<lparr>id' = 1, timestamp = 50, download_mbps = SReal 40, upload_mbps = SNull,
                ping_ms = SReal 5\<rparr>],
       seq = 1\<rparr>"]
  by simp

section \<open>Creating a record\<close>

lemma fold_max_ge: "(s::int) \<le> fold max xs s"
  by (induction xs arbitrary: s) (auto intro: order_trans[OF max.cobounded2])

lemma fold_max_mem: "(x::int) \<in> set xs \<Longrightarrow> x \<le> fold max xs s"
proof (induction xs arbitrary: s)
  case Nil
  then show ?case by simp
next
  case (Cons a xs)
  show ?case
  proof (cases "x = a")
    case True
    have "a \<le> max a s" by simp
    also have "\<dots> \<le> fold max xs (max a s)" by (rule fold_max_ge)
    finally show ?thesis using True by simp
  next
    case False
    with Cons show ?thesis by simp
  qed
qed

lemma seq_less_next_rowid: "seq t < next_rowid t"
  using fold_max_ge[of "seq t" "map id' (rows t)"] by (simp add: next_rowid_def)

lemma id_less_next_rowid: "r \<in> set (rows t) \<Longrightarrow> id' r < next_rowid t"
  using fold_max_mem[of "id' r" "map id' (rows t)" "seq t"] by (simp add: next_rowid_def)

lemma find_appended:
  "\<forall>r \<in> set rs. id' r \<noteq> i \<Longrightarrow> id' x = i \<Longrightarrow> find (\<lambda>r. id' r = i) (rs @ [x]) = Some x"
  by (induction rs) auto

lemma insert_speedtest_ok:
  "next_rowid t \<le> max_rowid \<Longrightarrow>
   insert_speedtest now d u p t =
     Inr (t\<lparr>rows := rows t @
               [\<lparr>id' = next_rowid t, timestamp = now, download_mbps = real_affinity d,
                 upload_mbps = real_affinity u, ping_ms = real_affinity p\<rparr>],
            seq := next_rowid t\<rparr>, next_rowid t)"
  by (simp add: insert_speedtest_def Let_def)

text \<open>The query by id finds the row just inserted: no older row has its id.\<close>

lemma select_inserted:
  "select_by_id (next_rowid t)
     (t\<lparr>rows := rows t @
          [\<lparr>id' = next_rowid t, timestamp = now, download_mbps = d, upload_mbps = u,
            ping_ms = p\<rparr>],
        seq := next_rowid t\<rparr>)
   = Some \<lparr>id' = next_rowid t, timestamp = now, download_mbps = d, upload_mbps = u,
           ping_ms = p\<rparr>"
proof -
  have "\<forall>r \<in> set (rows t). id' r \<noteq> next_rowid t"
    using id_less_next_rowid[of _ t] by fastforce
  then show ?thesis
    by (simp add: select_by_id_def find_appended)
qed

lemma post_speedtests_ok:
  assumes "bind_param (b ''download_mbps'') = Inr d"
      and "bind_param (b ''upload_mbps'') = Inr u"
      and "bind_param (b ''ping_ms'') = Inr p"
      and "next_rowid t \<le> max_rowid"
  shows "post_speedtests now b t =
     (t\<lparr>rows := rows t @
          [\<lparr>id' = next_rowid t, timestamp = now, download_mbps = real_affinity d,
            upload_mbps = real_affinity u, ping_ms = real_affinity p\<rparr>],
        seq := next_rowid t\<rparr>,
      Ok200 (JsonRecord (Some \<lparr>id' = next_rowid t, timestamp = now,
                               download_mbps = real_affinity d, upload_mbps = real_affinity u,
                               ping_ms = real_affinity p\<rparr>)))"
  using assms by (simp add: post_speedtests_def stmt_run_def insert_speedtest_ok select_inserted)

lemma post_speedtests_cases:
  "post_speedtests now b t = (t, HttpError 500) \<or>
   (\<exists>d u p. post_speedtests now b t =
     (t\<lparr>rows := rows t @
          [\<lparr>id' = next_rowid t, timestamp = now, download_mbps = d, upload_mbps = u,
            ping_ms = p\<rparr>],
        seq := next_rowid t\<rparr>,
      Ok200 (JsonRecord (Some \<lparr>id' = next_rowid t, timestamp = now, download_mbps = d,
                               upload_mbps = u, ping_ms = p\<rparr>))))"
proof (cases "stmt_run now (b ''download_mbps'') (b ''upload_mbps'') (b ''ping_ms'') t")
  case (Inl e)
  then show ?thesis by (simp add: post_speedtests_def)
next
  case (Inr x)
  then obtain d u p where
    "bind_param (b ''download_mbps'') = Inr d" "bind_param (b ''upload_mbps'') = Inr u"
    "bind_param (b ''ping_ms'') = Inr p" "next_rowid t \<le> max_rowid"
    by (auto simp: stmt_run_def insert_speedtest_def Let_def split: sum.splits if_splits)
  then show ?thesis using post_speedtests_ok by blast
qed

lemma post_speedtests_rows:
  "post_speedtests now b t = (t', r) \<Longrightarrow> length (rows t') \<le> length (rows t) + 1"
  using post_speedtests_cases[of now b t] by auto


text \<open>The reading of some texts by a column of type \<open>REAL\<close>.\<close>

lemma text_to_real_examples:
  "text_to_real ''40'' = Some 40"
  "text_to_real '' -12.5e1 '' = Some (- 125)"
  "text_to_real ''.5'' = Some (1 / 2)"
  "text_to_real ''2E-2'' = Some (1 / 50)"
  "text_to_real ''fast'' = None"
  "text_to_real ''40abc'' = None"
  "text_to_real ''1e'' = None"
  "text_to_real ''.'' = None"
  "text_to_real [] = None"
  by (simp_all add: text_to_real_def is_space_def is_digit_def digits_value_def)





section \<open>Identifiers and timestamps of created records\<close>

lemma serve_step:
  assumes "serve q t = (t1, r)"
  shows "seq t \<le> seq t1"
    and "r = Ok200 (JsonRecord (Some x)) \<Longrightarrow>
           seq t < id' x \<and> id' x = seq t1 \<and> timestamp x \<in> set (clock_readings [q])"
proof -
  show "seq t \<le> seq t1"
  proof (cases q)
    case (POST_speedtests now b)
    then show ?thesis
      using assms post_speedtests_cases[of now b t] seq_less_next_rowid[of t] by auto
  qed (use assms in \<open>auto simp: get_speedtests_def delete_speedtests_def\<close>)
  show "seq t < id' x \<and> id' x = seq t1 \<and> timestamp x \<in> set (clock_readings [q])"
    if "r = Ok200 (JsonRecord (Some x))"
  proof (cases q)
    case (POST_speedtests now b)
    then show ?thesis
      using assms that post_speedtests_cases[of now b t] seq_less_next_rowid[of t] by auto
  qed (use assms that in \<open>auto simp: get_speedtests_def delete_speedtests_def\<close>)
qed

lemma created_Cons:
  "created (r # rs) = created rs \<and> (\<forall>x. r \<noteq> Ok200 (JsonRecord (Some x))) \<or>
   (\<exists>x. r = Ok200 (JsonRecord (Some x)) \<and> created (r # rs) = x # created rs)"
  by (cases "r # rs" rule: created.cases) auto

text \<open>
  The sequence value never decreases, and every record a run returns has an id above
  the sequence value the run started from.
\<close>

lemma serve_all_ids:
  "serve_all qs t = (t', rs) \<Longrightarrow>
     seq t \<le> seq t' \<and> (\<forall>x \<in> set (created rs). seq t < id' x) \<and>
     sorted_wrt (<) (map id' (created rs))"
proof (induction qs arbitrary: t t' rs)
  case Nil
  then show ?case by simp
next
  case (Cons q qs)
  obtain t1 r where step: "serve q t = (t1, r)" by (cases "serve q t")
  obtain t2 rs2 where rest: "serve_all qs t1 = (t2, rs2)" by (cases "serve_all qs t1")
  from Cons.prems step rest have eq: "t' = t2" "rs = r # rs2" by auto
  note ih = Cons.IH[OF rest]
  note s1 = serve_step(1)[OF step]
  show ?case
  proof (cases "\<exists>x. r = Ok200 (JsonRecord (Some x))")
    case True
    then obtain x where x: "r = Ok200 (JsonRecord (Some x))" by blast
    from serve_step(2)[OF step x] have "seq t < id' x" "id' x = seq t1" by auto
    with ih s1 x eq show ?thesis by fastforce
  next
    case False
    then have "created (r # rs2) = created rs2"
      using created_Cons[of r rs2] by auto
    with ih s1 eq show ?thesis by fastforce
  qed
qed

lemma serve_all_timestamps:
  "serve_all qs t = (t', rs) \<Longrightarrow>
     set (map timestamp (created rs)) \<subseteq> set (clock_readings qs) \<and>
     (sorted (clock_readings qs) \<longrightarrow> sorted (map timestamp (created rs)))"
proof (induction qs arbitrary: t t' rs)
  case Nil
  then show ?case by simp
next
  case (Cons q qs)
  obtain t1 r where step: "serve q t = (t1, r)" by (cases "serve q t")
  obtain t2 rs2 where rest: "serve_all qs t1 = (t2, rs2)" by (cases "serve_all qs t1")
  from Cons.prems step rest have eq: "t' = t2" "rs = r # rs2" by auto
  note ih = Cons.IH[OF rest]
  show ?case
  proof (cases "\<exists>x. r = Ok200 (JsonRecord (Some x))")
    case True
    then obtain x where x: "r = Ok200 (JsonRecord (Some x))" by blast
    from serve_step(2)[OF step x] have "timestamp x \<in> set (clock_readings [q])" by simp
    then obtain now b where q: "q = POST_speedtests now b" "timestamp x = now"
      by (cases q) auto
    with ih x eq show ?thesis by auto
  next
    case False
    then have c: "created (r # rs2) = created rs2"
      using created_Cons[of r rs2] by auto
    have "sorted (clock_readings (q # qs)) \<Longrightarrow> sorted (clock_readings qs)"
      by (cases q) auto
    moreover have "set (clock_readings qs) \<subseteq> set (clock_readings (q # qs))"
      by (cases q) auto
    ultimately show ?thesis using ih eq c by auto
  qed
qed

text \<open>
  C6, as the code has it: in every sequence of requests handled one after the other, from
  any store, the records returned by the creations have strictly increasing ids, also
  across a clear; and their timestamps do not decrease as long as the server's clock
  does not step back between the creations.
\<close>

theorem created_ids_increase:
  "sorted_wrt (<) (map id' (created (snd (serve_all qs t)))) \<and>
   (sorted (clock_readings qs) \<longrightarrow> sorted (map timestamp (created (snd (serve_all qs t)))))"
  using serve_all_ids[of qs t] serve_all_timestamps[of qs t]
  by (cases "serve_all qs t") auto

text \<open>Two creations with a clear between them, the clock at 10 and then at 12.\<close>

theorem created_ids_increase_witness:
  "sorted (clock_readings
     [POST_speedtests 10 [''download_mbps'' \<mapsto> JNumber 40, ''upload_mbps'' \<mapsto> JNumber 32, ''ping_ms'' \<mapsto> JNumber 5],
      DELETE_speedtests,
      POST_speedtests 12 [''download_mbps'' \<mapsto> JNumber 41, ''upload_mbps'' \<mapsto> JNumber 30, ''ping_ms'' \<mapsto> JNumber 6]]) \<and>
   sorted_wrt (<) (map id' (created (snd (serve_all
     [POST_speedtests 10 [''download_mbps'' \<mapsto> JNumber 40, ''upload_mbps'' \<mapsto> JNumber 32, ''ping_ms'' \<mapsto> JNumber 5],
      DELETE_speedtests,
      POST_speedtests 12 [''download_mbps'' \<mapsto> JNumber 41, ''upload_mbps'' \<mapsto> JNumber 30, ''ping_ms'' \<mapsto> JNumber 6]]
     \<lparr>columns = speedtests_columns, rows = [], seq = 0\<rparr>)))) \<and>
   sorted (map timestamp (created (snd (serve_all
     [POST_speedtests 10 [''download_mbps'' \<mapsto> JNumber 40, ''upload_mbps'' \<mapsto> JNumber 32, ''ping_ms'' \<mapsto> JNumber 5],
      DELETE_speedtests,
      POST_speedtests 12 [''download_mbps'' \<mapsto> JNumber 41, ''upload_mbps'' \<mapsto> JNumber 30, ''ping_ms'' \<mapsto> JNumber 6]]
     \<lparr>columns = speedtests_columns, rows = [], seq = 0\<rparr>))))"
proof -
  have h: "sorted (clock_readings
     [POST_speedtests 10 [''download_mbps'' \<mapsto> JNumber 40, ''upload_mbps'' \<mapsto> JNumber 32, ''ping_ms'' \<mapsto> JNumber 5],
      DELETE_speedtests,
      POST_speedtests 12 [''download_mbps'' \<mapsto> JNumber 41, ''upload_mbps'' \<mapsto> JNumber 30, ''ping_ms'' \<mapsto> JNumber 6]])"
    by simp
  show ?thesis
    using h created_ids_increase
      [of "[POST_speedtests 10 [''download_mbps'' \<mapsto> JNumber 40, ''upload_mbps'' \<mapsto> JNumber 32, ''ping_ms'' \<mapsto> JNumber 5],
      DELETE_speedtests,
      POST_speedtests 12 [''download_mbps'' \<mapsto> JNumber 41, ''upload_mbps'' \<mapsto> JNumber 30, ''ping_ms'' \<mapsto> JNumber 6]]"
          "\<lparr>columns = speedtests_columns, rows = [], seq = 0\<rparr>"]
    by blast
qed

text \<open>
  Against C6 as stated: the timestamp is the reading of the server's wall clock. Two
  creations, the clock at 10 for the first and at 5 for the second, return the
  timestamps 10 and 5.
\<close>

theorem created_timestamps_clock_back:
  "map timestamp (created (snd (serve_all
      [POST_speedtests 10 [''download_mbps'' \<mapsto> JNumber 40, ''upload_mbps'' \<mapsto> JNumber 32, ''ping_ms'' \<mapsto> JNumber 5],
       POST_speedtests 5 [''download_mbps'' \<mapsto> JNumber 40, ''upload_mbps'' \<mapsto> JNumber 32, ''ping_ms'' \<mapsto> JNumber 5]]
      \<lparr>columns = speedtests_columns, rows = [], seq = 0\<rparr>))) = [10, 5]"
  by (simp add: post_speedtests_def stmt_run_def insert_speedtest_def next_rowid_def
      max_rowid_def select_by_id_def)

section \<open>Listing the records\<close>

lemma filter_key_strict:
  fixes f :: "'a \<Rightarrow> int"
  shows "sorted_wrt (\<lambda>a b. f b < f a) xs \<Longrightarrow> length (filter (\<lambda>x. f k = f x) xs) \<le> 1"
  by (induction xs) (auto simp: filter_empty_conv)

lemma rev_short: "length xs \<le> 1 \<Longrightarrow> rev xs = xs"
  by (cases xs) auto

text \<open>Sorting a list whose keys strictly decrease reverses it.\<close>

lemma sort_key_rev_strict:
  fixes f :: "'a \<Rightarrow> int"
  assumes "sorted_wrt (\<lambda>a b. f b < f a) xs"
  shows "sort_key f xs = rev xs"
proof (rule properties_for_sort_key)
  show "mset (rev xs) = mset xs" by simp
  show "sorted (map f (rev xs))"
    using assms by (induction xs) (auto simp: sorted_append less_imp_le)
  show "filter (\<lambda>x. f k = f x) (rev xs) = filter (\<lambda>x. f k = f x) xs" if "k \<in> set (rev xs)" for k
    using filter_key_strict[OF assms, of k] by (simp add: rev_filter[symmetric] rev_short)
qed

text \<open>
  C5, as the code has it: \<open>GET /api/speedtests\<close> returns at most 100 records, the first 100
  of the stored records put in the order of descending timestamp. When the timestamps
  strictly increase in the order of insertion these are the 100 records inserted last,
  newest first.
\<close>

theorem get_speedtests_order:
  "length (listed (snd (get_speedtests t))) \<le> 100 \<and>
   (\<exists>ys. mset ys = mset (rows t) \<and> sorted_wrt (\<lambda>a b. timestamp b \<le> timestamp a) ys \<and>
         listed (snd (get_speedtests t)) = take 100 ys) \<and>
   (sorted_wrt (\<lambda>a b. timestamp a < timestamp b) (rows t) \<longrightarrow>
      listed (snd (get_speedtests t)) = take 100 (rev (rows t)))"
proof -
  let ?f = "\<lambda>r. - int (timestamp r)"
  have 1: "sorted_wrt (\<lambda>a b. timestamp b \<le> timestamp a) (order_by_timestamp_desc (rows t))"
    using sorted_sort_key[of ?f "rows t"] by (simp add: order_by_timestamp_desc_def sorted_map)
  have 2: "mset (order_by_timestamp_desc (rows t)) = mset (rows t)"
    by (simp add: order_by_timestamp_desc_def)
  have 3: "order_by_timestamp_desc (rows t) = rev (rows t)"
    if "sorted_wrt (\<lambda>a b. timestamp a < timestamp b) (rows t)"
    using sort_key_rev_strict[of ?f "rows t"] that by (simp add: order_by_timestamp_desc_def)
  show ?thesis using 1 2 3 by (auto simp: get_speedtests_def)
qed

text \<open>Two records created in different seconds are listed newest first.\<close>

theorem get_speedtests_order_witness:
  "sorted_wrt (\<lambda>a b. timestamp a < timestamp b) (rows
     \<lparr>columns = speedtests_columns,
      rows = [\<lparr>id' = 1, timestamp = 100, download_mbps = SReal 40, upload_mbps = SReal 32, ping_ms = SReal 5\<rparr>,
              \<lparr>id' = 2, timestamp = 160, download_mbps = SReal 41, upload_mbps = SReal 30, ping_ms = SReal 6\<rparr>],
      seq = 2\<rparr>) \<and>
   listed (snd (get_speedtests
     \<lparr>columns = speedtests_columns,
      rows = [\<lparr>id' = 1, timestamp = 100, download_mbps = SReal 40, upload_mbps = SReal 32, ping_ms = SReal 5\<rparr>,
              \<lparr>id' = 2, timestamp = 160, download_mbps = SReal 41, upload_mbps = SReal 30, ping_ms = SReal 6\<rparr>],
      seq = 2\<rparr>)) =
     [\<lparr>id' = 2, timestamp = 160, download_mbps = SReal 41, upload_mbps = SReal 30, ping_ms = SReal 6\<rparr>,
      \<lparr>id' = 1, timestamp = 100, download_mbps = SReal 40, upload_mbps = SReal 32, ping_ms = SReal 5\<rparr>]"
  using get_speedtests_order
    [of "\<lparr>columns = speedtests_columns,
      rows = [\<lparr>id' = 1, timestamp = 100, download_mbps = SReal 40, upload_mbps = SReal 32, ping_ms = SReal 5\<rparr>,
              \<lparr>id' = 2, timestamp = 160, download_mbps = SReal 41, upload_mbps = SReal 30, ping_ms = SReal 6\<rparr>],
      seq = 2\<rparr>"]
  by simp

text \<open>
  Against C5 as stated: two records created within the same second have the same
  timestamp, and the list has them in the order of insertion, the older one first.
\<close>

theorem get_speedtests_same_second:
  "map id' (listed (snd (get_speedtests (fst (serve_all
      [POST_speedtests 100 [''download_mbps'' \<mapsto> JNumber 40, ''upload_mbps'' \<mapsto> JNumber 32, ''ping_ms'' \<mapsto> JNumber 5],
       POST_speedtests 100 [''download_mbps'' \<mapsto> JNumber 41, ''upload_mbps'' \<mapsto> JNumber 30, ''ping_ms'' \<mapsto> JNumber 6]]
      \<lparr>columns = speedtests_columns, rows = [], seq = 0\<rparr>))))) = [1, 2]"
  by (simp add: get_speedtests_def order_by_timestamp_desc_def post_speedtests_def stmt_run_def
      insert_speedtest_def next_rowid_def max_rowid_def select_by_id_def)

section \<open>The run of a speed test\<close>

lemma measure_failed: "probe_failed env \<Longrightarrow> measure_probes env = Inl Thrown"
  by (auto simp: probe_failed_def measure_probes_def measure_ping_def measure_download_def
      measure_upload_def Let_def split: promise.splits sum.splits prod.splits)


text \<open>The status of a probe's response has no part in the measurement.\<close>

lemma probe_status_unread:
  "measure_probes (env\<lparr>ping_fetch := Resolved a, payload_fetch := Resolved (b, blob),
                       upload_fetch := Resolved c\<rparr>) =
   measure_probes (env\<lparr>ping_fetch := Resolved a', payload_fetch := Resolved (b', blob),
                       upload_fetch := Resolved c'\<rparr>)"
proof -
  let ?e = "env\<lparr>ping_fetch := Resolved a, payload_fetch := Resolved (b, blob),
                upload_fetch := Resolved c\<rparr>"
  let ?e' = "env\<lparr>ping_fetch := Resolved a', payload_fetch := Resolved (b', blob),
                 upload_fetch := Resolved c'\<rparr>"
  have "measure_ping ?e = measure_ping ?e'"
    by (simp add: measure_ping_def)
  moreover have "measure_download ?e = measure_download ?e'"
    by (simp add: measure_download_def)
  moreover have "measure_upload ?e = measure_upload ?e'"
    by (simp add: measure_upload_def)
  ultimately show ?thesis
    by (simp only: measure_probes_def)
qed






lemma complete_run_rows:
  "length (rows (snd (complete_run env (s, t)))) \<le> length (rows t) + 1"
  by (auto simp: complete_run_def save_result_def dest: post_speedtests_rows
      split: sum.splits prod.splits transport.splits)

text \<open>
  When the promise of a probe is rejected, the run stops before anything is sent to the
  store: the table is the one the run started with, the error message of \<open>runSpeedTest\<close>
  is set, and the test no longer counts as running.
\<close>

lemma rejected_probe_aborts:
  assumes "probe_failed env" and "\<not> captured_isRunning cb"
  shows "measure_probes env = Inl Thrown \<and>
     runSpeedTest cb env (s, t) = (s\<lparr>isRunning := False, error := Some MeasurementFailed\<rparr>, t)"
  using assms measure_failed[of env]
  by (simp add: runSpeedTest_def start_run_def complete_run_def)

lemma rejected_probe_example:
  "probe_failed broken_download_run \<and>
   runSpeedTest (useCallback idle_state) broken_download_run (idle_state, empty_table) =
     (\<lparr>tests = [], isRunning = False, autoTestEnabled = False, lastTestTime = None,
       error = Some MeasurementFailed\<rparr>, empty_table)"
proof -
  have h: "probe_failed broken_download_run" "\<not> captured_isRunning (useCallback idle_state)"
    by (simp_all add: probe_failed_def broken_download_run_def good_run_def idle_state_def
        useCallback_def)
  show ?thesis
    using h rejected_probe_aborts[OF h, of idle_state empty_table] by (simp add: idle_state_def)
qed

text \<open>
  C3 at a failing input: the ping is answered with status 500, the payload with status
  404 and a page of 150 bytes, the upload with status 500. No promise is rejected and no
  probe looks at the status, unlike \<open>fetchHistory\<close> (line 32) and the save request (line
  97), which throw unless \<open>res.ok\<close>. The run does not abort: it sets no error, and a record
  with a download speed of 0 computed from the error page is stored.
\<close>

theorem error_status_probe_saved:
  "\<not> probe_failed error_status_run \<and>
   runSpeedTest (useCallback idle_state) error_status_run (idle_state, empty_table) =
     (\<lparr>tests = [\<lparr>id' = 1, timestamp = 1000, download_mbps = SReal 0, upload_mbps = SReal 32,
                 ping_ms = SReal 12\<rparr>],
       isRunning = False, autoTestEnabled = False, lastTestTime = Some 1000, error = None\<rparr>,
      \<lparr>columns = speedtests_columns,
       rows = [\<lparr>id' = 1, timestamp = 1000, download_mbps = SReal 0, upload_mbps = SReal 32,
                ping_ms = SReal 12\<rparr>],
       seq = 1\<rparr>)"
  by (simp add: probe_failed_def error_status_run_def good_run_def idle_state_def
      empty_table_def useCallback_def
      runSpeedTest_def start_run_def complete_run_def measure_probes_def
      measure_ping_def measure_download_def measure_upload_def save_body_def save_result_def
      post_speedtests_def stmt_run_def insert_speedtest_def next_rowid_def max_rowid_def
      select_by_id_def round2_def)

text \<open>
  A call through a callback that was made while the test was running changes neither
  the component nor the store.
\<close>

lemma fresh_callback_noop:
  "isRunning s \<Longrightarrow> runSpeedTest (useCallback s) env (s, t) = (s, t)"
  by (simp add: runSpeedTest_def start_run_def useCallback_def)

text \<open>
  C8 at a failing input: the callback made at the render of the idle component is called
  twice before the component is rendered again. The first call marks the test as
  running in the state; the second call still holds \<open>isRunning = false\<close>, passes the guard
  while the first test is in flight and runs a test of its own. When both tests have
  completed, the store holds two records.
\<close>

theorem stale_callback_two_records:
  "start_run (useCallback idle_state) idle_state = Some (idle_state\<lparr>isRunning := True\<rparr>) \<and>
   isRunning (idle_state\<lparr>isRunning := True\<rparr>) \<and>
   map id' (rows (snd (runSpeedTest (useCallback idle_state) good_run
       (idle_state\<lparr>isRunning := True\<rparr>, empty_table)))) = [1] \<and>
   map id' (rows (snd (complete_run good_run
       (runSpeedTest (useCallback idle_state) good_run
          (idle_state\<lparr>isRunning := True\<rparr>, empty_table))))) = [1, 2]"
  by (simp add: good_run_def idle_state_def empty_table_def useCallback_def
      runSpeedTest_def start_run_def complete_run_def measure_probes_def
      measure_ping_def measure_download_def measure_upload_def save_body_def save_result_def
      post_speedtests_def stmt_run_def insert_speedtest_def next_rowid_def max_rowid_def
      select_by_id_def round2_def)




text \<open>
  C4: the speed is bytes * 8 / seconds / 2^20, the seconds being the milliseconds on the
  clock divided by 1000: for every number of bytes received and every duration other
  than zero in the download, and for the 2 * 2^20 bytes of the upload. So 5 * 2^20 bytes
  received in one second give a download speed of 40, and the upload done in half a
  second gives an upload speed of 32.
\<close>

theorem throughput_formula:
  "measure_download (env\<lparr>payload_fetch := Resolved (st, Resolved n),
                         downloadStart := T, downloadEnd := T + ms\<rparr>) =
     Inr (if ms = 0 then (if n = 0 then NaN else PosInf)
          else Fin (real n * 8 / (ms / 1000) / 2 ^ 20)) \<and>
   measure_upload (env\<lparr>upload_fetch := Resolved st', uploadStart := T',
                       uploadEnd := T' + ms'\<rparr>) =
     Inr (if ms' = 0 then PosInf else Fin (2 * 2 ^ 20 * 8 / (ms' / 1000) / 2 ^ 20)) \<and>
   measure_download (env\<lparr>payload_fetch := Resolved (st, Resolved (5 * 2 ^ 20)),
                         downloadStart := T, downloadEnd := T + 1000\<rparr>) = Inr (Fin 40) \<and>
   measure_upload (env\<lparr>upload_fetch := Resolved st', uploadStart := T',
                       uploadEnd := T' + 500\<rparr>) = Inr (Fin 32)"
  by (simp add: measure_download_def measure_upload_def)

end
